theory Spec2Isabelle
  imports Main
begin

section \<open>The audio converter: tool lookup, command construction, process runner\<close>

text \<open>
  A shallow embedding of \<^verbatim>\<open>src/main.py\<close>: the lookup of the ffmpeg executable
  (\<^verbatim>\<open>_find_ffmpeg_binary\<close>, \<^verbatim>\<open>_install_ffmpeg_windows\<close>, \<^verbatim>\<open>_install_ffmpeg_macos\<close>,
  \<^verbatim>\<open>ensure_ffmpeg\<close>), the worker that runs the child process (\<^verbatim>\<open>FfmpegWorker.run\<close>)
  and the entry point that validates the request and builds the argument list
  (\<^verbatim>\<open>RetroWindow.start_convert\<close>). Widget layout and styling are left out. Everything
  the program asks of its surroundings (the file system, the search path, the answer of
  the user to a question box, what a child process does) is an explicit argument.
\<close>

subsection \<open>Strings and paths\<close>

text \<open>
  Python's \<^verbatim>\<open>str.rfind\<close> for a one-character needle: the highest index of the
  character, or \<open>-1\<close>.
\<close>

fun rfind :: "string \<Rightarrow> char \<Rightarrow> int" where
  "rfind [] c = - 1"
| "rfind (x # xs) c =
     (let r = rfind xs c in if 0 \<le> r then r + 1 else if x = c then 0 else - 1)"

definition startswith :: "string \<Rightarrow> string \<Rightarrow> bool" where
  "startswith s pre = (take (length pre) s = pre)"

definition endswith :: "string \<Rightarrow> string \<Rightarrow> bool" where
  "endswith s suf = (length suf \<le> length s \<and> drop (length s - length suf) s = suf)"

text \<open>
  \<^verbatim>\<open>os.path\<close> is a module chosen by the platform (\<^verbatim>\<open>posixpath\<close> or \<^verbatim>\<open>ntpath\<close>).
  The program uses three of its functions; they are the fields of \<open>os_path\<close>. The
  module \<^verbatim>\<open>posixpath\<close> is modelled below as CPython defines it; \<^verbatim>\<open>ntpath\<close> is not
  modelled, so a statement about concrete path strings is a statement about POSIX hosts.
\<close>

record os_path =
  path_join :: "string \<Rightarrow> string \<Rightarrow> string"
  path_basename :: "string \<Rightarrow> string"
  path_splitext :: "string \<Rightarrow> string \<times> string"

text \<open>
  \<^verbatim>\<open>posixpath.join(a, b)\<close>: an absolute \<open>b\<close> replaces \<open>a\<close>; no separator is added
  after an empty \<open>a\<close> or after an \<open>a\<close> that already ends with one.
\<close>

definition posix_join :: "string \<Rightarrow> string \<Rightarrow> string" where
  "posix_join a b =
     (if startswith b ''/'' then b
      else if a = [] \<or> endswith a ''/'' then a @ b
      else a @ ''/'' @ b)"

text \<open>\<^verbatim>\<open>posixpath.basename(p)\<close>: \<^verbatim>\<open>i = p.rfind('/') + 1; return p[i:]\<close>.\<close>

definition posix_basename :: "string \<Rightarrow> string" where
  "posix_basename p = drop (nat (rfind p CHR ''/'' + 1)) p"

text \<open>
  \<^verbatim>\<open>genericpath._splitext\<close>: the loop that skips leading dots of the file name. It
  returns the split at \<open>dotIndex\<close> as soon as a character before the last dot is not a
  dot, and \<open>None\<close> when it runs out (the caller then returns \<^verbatim>\<open>(p, '')\<close>).
\<close>

function splitext_scan :: "string \<Rightarrow> nat \<Rightarrow> nat \<Rightarrow> (string \<times> string) option" where
  "splitext_scan p filenameIndex dotIndex =
     (if filenameIndex < dotIndex then
        (if take 1 (drop filenameIndex p) \<noteq> ''.''
         then Some (take dotIndex p, drop dotIndex p)
         else splitext_scan p (Suc filenameIndex) dotIndex)
      else None)"
  by pat_completeness auto
termination
  by (relation "measure (\<lambda>(p, filenameIndex, dotIndex). dotIndex - filenameIndex)") auto

declare splitext_scan.simps [simp del]

definition generic_splitext :: "string \<Rightarrow> char \<Rightarrow> char \<Rightarrow> string \<times> string" where
  "generic_splitext p sep extsep =
     (let sepIndex = rfind p sep; dotIndex = rfind p extsep in
      if sepIndex < dotIndex then
        (case splitext_scan p (nat (sepIndex + 1)) (nat dotIndex) of
           Some r \<Rightarrow> r
         | None \<Rightarrow> (p, []))
      else (p, []))"

definition posix_splitext :: "string \<Rightarrow> string \<times> string" where
  "posix_splitext p = generic_splitext p CHR ''/'' CHR ''.''"

definition posixpath :: os_path where
  "posixpath = \<lparr>path_join = posix_join, path_basename = posix_basename,
                 path_splitext = posix_splitext\<rparr>"

subsection \<open>The command builder (inside \<^verbatim>\<open>start_convert\<close>)\<close>

text \<open>The entries of the two combo boxes.\<close>

definition format_items :: "string list" where
  "format_items = [''mp3'', ''opus'', ''wav'', ''flac'', ''m4a'', ''aac'', ''ogg'', ''wma'']"

definition quality_items :: "string list" where
  "quality_items = [''High quality'', ''Balanced'', ''Smaller file'']"

text \<open>
  The \<^verbatim>\<open>if ext == ... elif ...\<close> chain that appends the codec arguments. An \<open>ext\<close>
  that matches no branch appends nothing.
\<close>

definition codec_args :: "string \<Rightarrow> string \<Rightarrow> string list" where
  "codec_args ext quality =
     (if ext = ''mp3'' then
        [''-c:a'', ''libmp3lame''] @
        (if quality = ''High quality'' then [''-b:a'', ''320k'']
         else if quality = ''Smaller file'' then [''-b:a'', ''128k'']
         else [''-b:a'', ''192k''])
      else if ext = ''opus'' then
        [''-c:a'', ''libopus''] @
        (if quality = ''High quality'' then [''-b:a'', ''160k'']
         else if quality = ''Smaller file'' then [''-b:a'', ''64k'']
         else [''-b:a'', ''128k''])
      else if ext = ''wav'' then [''-c:a'', ''pcm_s16le'']
      else if ext = ''flac'' then [''-c:a'', ''flac'']
      else if ext \<in> set [''m4a'', ''aac''] then
        [''-c:a'', ''aac''] @
        (if quality = ''High quality'' then [''-b:a'', ''256k'']
         else [''-b:a'', ''192k''])
      else if ext = ''ogg'' then
        [''-c:a'', ''libvorbis''] @
        (if quality = ''High quality'' then [''-q:a'', ''6'']
         else [''-q:a'', ''4''])
      else if ext = ''wma'' then [''-c:a'', ''wmav2'', ''-b:a'', ''192k'']
      else [])"

text \<open>The two check boxes: the loudness filter and the subtitle switch.\<close>

definition filter_args :: "bool \<Rightarrow> bool \<Rightarrow> string list" where
  "filter_args normalize_on strip_on =
     (if normalize_on then [''-af'', ''loudnorm''] else []) @
     (if strip_on then [''-sn''] else [])"

text \<open>
  \<^verbatim>\<open>out_path = os.path.join(output_dir, f"{base_name}.{ext}")\<close> with
  \<^verbatim>\<open>base_name = os.path.splitext(os.path.basename(in_path))[0]\<close>.
\<close>

definition base_name_of :: "os_path \<Rightarrow> string \<Rightarrow> string" where
  "base_name_of pm in_path = fst (path_splitext pm (path_basename pm in_path))"

definition out_path_of :: "os_path \<Rightarrow> string \<Rightarrow> string \<Rightarrow> string \<Rightarrow> string" where
  "out_path_of pm in_path output_dir ext =
     path_join pm output_dir (base_name_of pm in_path @ ''.'' @ ext)"

text \<open>The list \<open>cmd\<close> as \<^verbatim>\<open>start_convert\<close> grows it, in the order of its statements.\<close>

definition build_cmd ::
  "string \<Rightarrow> string \<Rightarrow> string \<Rightarrow> string \<Rightarrow> string \<Rightarrow> bool \<Rightarrow> bool \<Rightarrow> string list" where
  "build_cmd ffmpeg_path in_path out_path ext quality normalize_on strip_on =
     (let cmd = [ffmpeg_path, ''-y'', ''-i'', in_path];
          cmd = cmd @ [''-vn''];
          cmd = cmd @ codec_args ext quality;
          cmd = cmd @ filter_args normalize_on strip_on;
          cmd = cmd @ [out_path]
      in cmd)"

subsection \<open>The surroundings of the program\<close>

text \<open>
  What the program reads from the file system: \<^verbatim>\<open>os.path.isfile\<close>,
  \<^verbatim>\<open>os.path.isdir\<close> and \<^verbatim>\<open>shutil.which\<close>.
\<close>

record disk =
  isfile :: "string \<Rightarrow> bool"
  isdir :: "string \<Rightarrow> bool"
  which :: "string \<Rightarrow> string option"

datatype py_exn = FileNotFoundError | PermissionError | OtherOSError

text \<open>
  A child process started by \<^verbatim>\<open>subprocess.Popen\<close> with its output piped: the lines
  it writes to the merged stdout/stderr before closing it, and its exit status
  (\<open>None\<close>: it never exits).
\<close>

datatype child = Child (out_lines: "string list") (exit_status: "int option")

datatype cflag = NoFlag | CREATE_NEW_CONSOLE | CREATE_NO_WINDOW

text \<open>
  The host: \<^verbatim>\<open>os.name\<close>, \<^verbatim>\<open>sys.platform\<close>, the result of \<^verbatim>\<open>_app_base_dir()\<close>, the
  \<^verbatim>\<open>os.path\<close> module in effect, the answer the user gives to a question box, what a
  command run to completion does to the disk (an exception when it cannot be started,
  else its exit status and the disk it leaves), and what \<^verbatim>\<open>Popen\<close> yields for a
  command and a working directory.
\<close>

record host =
  os_name :: string
  sys_platform :: string
  app_base_dir :: string
  os_path :: os_path
  reply_yes :: bool
  run_to_exit :: "string list \<Rightarrow> disk \<Rightarrow> py_exn + (int \<times> disk)"
  popen :: "string list \<Rightarrow> string \<Rightarrow> cflag \<Rightarrow> py_exn + child"

text \<open>What the program does to its surroundings, in the order it does it.\<close>

datatype box = Question | Critical | Warning

datatype event =
    MessageBox box string
  | Probe
  | ProcSpawn "string list" cflag
  | ProcWait "string list" int
  | AppendLog string
  | SetBusy bool
  | ThreadStart

record world =
  the_disk :: disk
  trace :: "event list"

definition emit :: "event \<Rightarrow> world \<Rightarrow> world" where
  "emit ev w = w\<lparr>trace := trace w @ [ev]\<rparr>"

text \<open>Python's truth value of a value that is \<^verbatim>\<open>None\<close> or a string.\<close>

fun truthy :: "string option \<Rightarrow> bool" where
  "truthy None = False"
| "truthy (Some s) = (s \<noteq> [])"

subsection \<open>The tool locator\<close>

definition find_ffmpeg_binary :: "host \<Rightarrow> disk \<Rightarrow> string option" where
  "find_ffmpeg_binary h d =
     (let base_dir = app_base_dir h;
          exe_name = (if os_name h = ''nt'' then ''ffmpeg.exe'' else ''ffmpeg'');
          local_path = path_join (os_path h) base_dir exe_name
      in if isfile d local_path then Some local_path
         else (let path_ffmpeg = which d ''ffmpeg''
               in if truthy path_ffmpeg then path_ffmpeg else None))"

text \<open>A call of \<^verbatim>\<open>_find_ffmpeg_binary()\<close>, recorded in the trace.\<close>

definition probe :: "host \<Rightarrow> world \<Rightarrow> string option \<times> world" where
  "probe h w = (find_ffmpeg_binary h (the_disk w), emit Probe w)"

text \<open>
  \<^verbatim>\<open>subprocess.call(args, creationflags=...)\<close> is
  \<^verbatim>\<open>with Popen(...) as p: return p.wait()\<close>: it starts the child and returns only when
  the child has exited, so the disk the caller sees next is the one the child left.
\<close>

definition subprocess_call ::
  "host \<Rightarrow> string list \<Rightarrow> cflag \<Rightarrow> world \<Rightarrow> (py_exn + int) \<times> world" where
  "subprocess_call h args fl w =
     (case run_to_exit h args (the_disk w) of
        Inl exn \<Rightarrow> (Inl exn, w)
      | Inr (rc, d') \<Rightarrow>
          (Inr rc, emit (ProcWait args rc) (emit (ProcSpawn args fl) (w\<lparr>the_disk := d'\<rparr>))))"

text \<open>
  \<^verbatim>\<open>getattr(subprocess, "CREATE_NEW_CONSOLE", 0)\<close>: the attribute exists on Windows
  builds of Python only.
\<close>

definition new_console_flag :: "host \<Rightarrow> cflag" where
  "new_console_flag h = (if sys_platform h = ''win32'' then CREATE_NEW_CONSOLE else NoFlag)"

definition install_ffmpeg_windows :: "host \<Rightarrow> bool \<Rightarrow> string \<Rightarrow> world \<Rightarrow> bool \<times> world" where
  "install_ffmpeg_windows h parent installer_path w =
     (let w1 = (if parent then emit (MessageBox Question ''FFmpeg not found'') w else w)
      in if parent \<and> \<not> reply_yes h then (False, w1)
         else (case subprocess_call h [''cmd'', ''/c'', installer_path] (new_console_flag h) w1 of
                 (Inr rc, w2) \<Rightarrow> (True, w2)
               | (Inl exn, w2) \<Rightarrow>
                   (False, if parent then emit (MessageBox Critical ''Installer error'') w2
                           else w2)))"

definition install_ffmpeg_macos :: "host \<Rightarrow> bool \<Rightarrow> world \<Rightarrow> bool \<times> world" where
  "install_ffmpeg_macos h parent w =
     (let brew_path = which (the_disk w) ''brew'' in
      if \<not> truthy brew_path then
        (False, if parent then emit (MessageBox Critical ''Homebrew not found'') w else w)
      else
        (let w1 = (if parent then emit (MessageBox Question ''Install FFmpeg'') w else w)
         in if parent \<and> \<not> reply_yes h then (False, w1)
            else (case subprocess_call h [the brew_path, ''install'', ''ffmpeg''] NoFlag w1 of
                    (Inr rc, w2) \<Rightarrow> (True, w2)
                  | (Inl exn, w2) \<Rightarrow>
                      (False, if parent then emit (MessageBox Critical ''Install error'') w2
                              else w2))))"

definition ensure_ffmpeg :: "host \<Rightarrow> bool \<Rightarrow> world \<Rightarrow> string option \<times> world" where
  "ensure_ffmpeg h parent w =
     (case probe h w of (ff, w0) \<Rightarrow>
      if truthy ff then (ff, w0)
      else if startswith (sys_platform h) ''win'' then
        (let installer = path_join (os_path h) (app_base_dir h) ''ffmpeginstall.bat'';
             fallback = (\<lambda>w'. (None, if parent then emit (MessageBox Critical ''FFmpeg Missing'') w'
                                      else w'))
         in if isfile (the_disk w0) installer then
              (case install_ffmpeg_windows h parent installer w0 of (ok, w1) \<Rightarrow>
                 if ok then
                   (case probe h w1 of (ff, w2) \<Rightarrow>
                      if truthy ff then (ff, w2) else fallback w2)
                 else fallback w1)
            else fallback w0)
      else if sys_platform h = ''darwin'' then
        (let fallback = (\<lambda>w'. (None, if parent then emit (MessageBox Critical ''FFmpeg not available'') w'
                                      else w'))
         in case install_ffmpeg_macos h parent w0 of (ok, w1) \<Rightarrow>
              if ok then
                (case probe h w1 of (ff, w2) \<Rightarrow>
                   if truthy ff then (ff, w2) else fallback w2)
              else fallback w1)
      else (None, if parent then emit (MessageBox Critical ''FFmpeg not available'') w0 else w0))"

subsection \<open>The process runner (\<^verbatim>\<open>FfmpegWorker.run\<close>)\<close>

text \<open>
  What the worker does, in order: a signal it emits (\<^verbatim>\<open>log_signal\<close>, \<^verbatim>\<open>finished\<close>),
  or the return of \<^verbatim>\<open>process.wait()\<close> with the exit status. A run ends by returning,
  by an exception that leaves \<^verbatim>\<open>run\<close>, or never (the child does not exit).
\<close>

datatype wevent = LogSignal string | ProcessExited int | FinishedSignal bool

datatype ending = Returned | Raised py_exn | Blocked

text \<open>\<^verbatim>\<open>for line in process.stdout: self.log_signal.emit(line)\<close>.\<close>

fun emit_lines :: "string list \<Rightarrow> wevent list \<Rightarrow> wevent list" where
  "emit_lines [] tr = tr"
| "emit_lines (line # rest) tr = emit_lines rest (tr @ [LogSignal line])"

text \<open>The \<^verbatim>\<open>creationflags\<close> of the worker: no console window on Windows.\<close>

definition worker_flags :: "host \<Rightarrow> cflag" where
  "worker_flags h = (if os_name h = ''nt'' then CREATE_NO_WINDOW else NoFlag)"

definition run :: "host \<Rightarrow> string list \<Rightarrow> string \<Rightarrow> wevent list \<times> ending" where
  "run h command workdir =
     (let creationflags = worker_flags h in
      case popen h command workdir creationflags of
        Inl exn \<Rightarrow>
          (if exn = FileNotFoundError
           then ([LogSignal ''ERROR: ffmpeg execution failed. Check installation.\<newline>'',
                  FinishedSignal False], Returned)
           else ([], Raised exn))
      | Inr process \<Rightarrow>
          (let tr = emit_lines (out_lines process) [] in
           case exit_status process of
             None \<Rightarrow> (tr, Blocked)
           | Some returncode \<Rightarrow>
               (tr @ [ProcessExited returncode, FinishedSignal (returncode = 0)], Returned)))"

text \<open>The value of the \<^verbatim>\<open>finished\<close> signal a listener receives, if any.\<close>

fun outcome :: "wevent list \<Rightarrow> bool option" where
  "outcome [] = None"
| "outcome (FinishedSignal ok # tr) = Some ok"
| "outcome (ev # tr) = outcome tr"

fun log_lines :: "wevent list \<Rightarrow> string list" where
  "log_lines [] = []"
| "log_lines (LogSignal l # tr) = l # log_lines tr"
| "log_lines (ev # tr) = log_lines tr"

subsection \<open>The conversion entry point (\<^verbatim>\<open>RetroWindow.start_convert\<close>)\<close>

text \<open>The fields and widgets of the window that \<^verbatim>\<open>start_convert\<close> reads.\<close>

record window =
  input_path :: string
  output_dir :: string
  format_combo :: string
  quality_combo :: string
  normalize_box :: bool
  strip_subs_box :: bool

text \<open>\<^verbatim>\<open>' '.join(cmd)\<close>.\<close>

fun join_words :: "string list \<Rightarrow> string" where
  "join_words [] = []"
| "join_words [x] = x"
| "join_words (x # y # ys) = x @ '' '' @ join_words (y # ys)"

text \<open>
  The result is the worker that was created, as its command and working directory, or
  \<open>None\<close> when \<^verbatim>\<open>start_convert\<close> returned before creating one.
\<close>

definition start_convert ::
  "host \<Rightarrow> window \<Rightarrow> world \<Rightarrow> (string list \<times> string) option \<times> world" where
  "start_convert h win w =
     (if input_path win = [] then (None, emit (MessageBox Warning ''No input'') w)
      else if \<not> isdir (the_disk w) (output_dir win)
      then (None, emit (MessageBox Warning ''Invalid output'') w)
      else (case ensure_ffmpeg h True w of (ffmpeg_path, w1) \<Rightarrow>
        if \<not> truthy ffmpeg_path then (None, w1)
        else
          (let in_path = input_path win;
               ext = format_combo win;
               out_path = out_path_of (os_path h) in_path (output_dir win) ext;
               quality = quality_combo win;
               cmd = build_cmd (the ffmpeg_path) in_path out_path ext quality
                       (normalize_box win) (strip_subs_box win);
               w2 = emit (AppendLog ''=== Starting conversion ===\<newline>'') w1;
               w3 = emit (AppendLog (''CMD: '' @ join_words cmd @ ''\<newline>'')) w2;
               w4 = emit ThreadStart (emit (SetBusy True) w3)
           in (Some (cmd, output_dir win), w4))))"

text \<open>
  The started thread calls \<^verbatim>\<open>worker.run\<close>: the whole conversion is \<^verbatim>\<open>start_convert\<close>
  followed, when a worker was created, by its run.
\<close>

definition conversion ::
  "host \<Rightarrow> window \<Rightarrow> world \<Rightarrow> (wevent list \<times> ending) option \<times> world" where
  "conversion h win w =
     (case start_convert h win w of
        (None, w') \<Rightarrow> (None, w')
      | (Some (cmd, workdir), w') \<Rightarrow> (Some (run h cmd workdir), w'))"

subsection \<open>Properties of traces\<close>

text \<open>The caller never waits for a child process it started.\<close>

fun fire_and_forget :: "event list \<Rightarrow> bool" where
  "fire_and_forget [] = True"
| "fire_and_forget (ProcWait args rc # tr) = False"
| "fire_and_forget (ev # tr) = fire_and_forget tr"

text \<open>No event follows a \<^verbatim>\<open>finished\<close> signal.\<close>

fun finished_last :: "wevent list \<Rightarrow> bool" where
  "finished_last [] = True"
| "finished_last (FinishedSignal ok # tr) = (tr = [])"
| "finished_last (ev # tr) = finished_last tr"

subsection \<open>Example hosts\<close>

text \<open>
  A Linux host with ffmpeg on the search path, whose ffmpeg writes two lines and exits
  with status 0, and a disk on which the chosen input file does not exist and the output
  file already does.
\<close>

definition linux_disk :: disk where
  "linux_disk =
     \<lparr>isfile = (\<lambda>p. p \<in> set [''/usr/bin/ffmpeg'', ''/out/song.mp3'']),
      isdir = (\<lambda>p. p \<in> set [''/'', ''/out'', ''/usr/bin'']),
      which = (\<lambda>n. if n = ''ffmpeg'' then Some ''/usr/bin/ffmpeg'' else None)\<rparr>"

definition linux_host :: host where
  "linux_host =
     \<lparr>os_name = ''posix'', sys_platform = ''linux'', app_base_dir = ''/opt/app'',
      os_path = posixpath, reply_yes = True,
      run_to_exit = (\<lambda>args d. Inl FileNotFoundError),
      popen = (\<lambda>cmd wd fl. Inr (Child [''size=1kB'', ''done''] (Some 0)))\<rparr>"

definition song_window :: window where
  "song_window =
     \<lparr>input_path = ''/x/song.mov'', output_dir = ''/out'', format_combo = ''mp3'',
      quality_combo = ''Balanced'', normalize_box = True, strip_subs_box = False\<rparr>"

text \<open>
  A Windows host without ffmpeg and with the installer script beside the application;
  the installer, run to its end, puts \<^verbatim>\<open>ffmpeg\<close> on the search path. The stand-in for
  \<^verbatim>\<open>ntpath.join\<close> covers the case the locator needs: a directory without a trailing
  separator and a plain file name.
\<close>

definition windows_disk :: disk where
  "windows_disk =
     \<lparr>isfile = (\<lambda>p. p = ''C:/app'' @ [CHR 0x5C] @ ''ffmpeginstall.bat''),
      isdir = (\<lambda>p. p = ''C:/out''),
      which = (\<lambda>n. None)\<rparr>"

definition windows_host :: host where
  "windows_host =
     \<lparr>os_name = ''nt'', sys_platform = ''win32'', app_base_dir = ''C:/app'',
      os_path = \<lparr>path_join = (\<lambda>a b. a @ [CHR 0x5C] @ b), path_basename = posix_basename,
                 path_splitext = posix_splitext\<rparr>,
      reply_yes = True,
      run_to_exit = (\<lambda>args d.
         Inr (0, d\<lparr>which := (\<lambda>n. if n = ''ffmpeg'' then Some ''C:/ffmpeg/bin/ffmpeg.EXE''
                                    else None)\<rparr>)),
      popen = (\<lambda>cmd wd fl. Inl PermissionError)\<rparr>"

definition linux_world :: world where
  "linux_world = \<lparr>the_disk = linux_disk, trace = []\<rparr>"

definition windows_world :: world where
  "windows_world = \<lparr>the_disk = windows_disk, trace = []\<rparr>"

text \<open>A disk with no ffmpeg anywhere.\<close>

definition bare_world :: world where
  "bare_world =
     \<lparr>the_disk = \<lparr>isfile = (\<lambda>p. False), isdir = (\<lambda>p. p = ''/out''), which = (\<lambda>n. None)\<rparr>,
      trace = []\<rparr>"

text \<open>
  A Linux host with a file named \<^verbatim>\<open>ffmpeg\<close> beside the application that is not
  executable: \<^verbatim>\<open>os.path.isfile\<close> accepts it, and starting it fails with
  \<^verbatim>\<open>PermissionError\<close>.
\<close>

definition bundled_world :: world where
  "bundled_world =
     \<lparr>the_disk = \<lparr>isfile = (\<lambda>p. p = ''/opt/app/ffmpeg''), isdir = (\<lambda>p. p = ''/out''),
                   which = (\<lambda>n. None)\<rparr>,
      trace = []\<rparr>"

definition bundled_host :: host where
  "bundled_host =
     linux_host\<lparr>popen := (\<lambda>cmd wd fl. if take 1 cmd = [''/opt/app/ffmpeg'']
                                      then Inl PermissionError else Inl FileNotFoundError)\<rparr>"

text \<open>
  Two more states of the window: opus at the smallest preset; flac with both check
  boxes set.
\<close>

definition opus_window :: window where
  "opus_window = song_window\<lparr>format_combo := ''opus'', quality_combo := ''Smaller file''\<rparr>"

definition subs_window :: window where
  "subs_window =
     song_window\<lparr>format_combo := ''flac'', strip_subs_box := True\<rparr>"

section \<open>Lemmas\<close>

subsection \<open>Paths\<close>

lemma rfind_absent: "c \<notin> set (drop (nat (rfind p c + 1)) p)"
proof (induction p)
  case Nil
  then show ?case by simp
next
  case (Cons x xs)
  show ?case
  proof (cases "0 \<le> rfind xs c")
    case True
    then have "nat (rfind xs c + 1 + 1) = Suc (nat (rfind xs c + 1))" by simp
    with True Cons show ?thesis by (simp add: Let_def)
  next
    case False
    then have "nat (rfind xs c + 1) = 0" by simp
    with Cons have "c \<notin> set xs" by simp
    with False show ?thesis by (simp add: Let_def)
  qed
qed

lemma basename_no_sep: "CHR ''/'' \<notin> set (posix_basename p)"
  unfolding posix_basename_def by (rule rfind_absent)

lemma splitext_scan_Some:
  "splitext_scan p f d = Some r \<Longrightarrow> r = (take d p, drop d p)"
  by (induction p f d rule: splitext_scan.induct)
     (subst (asm) splitext_scan.simps, auto split: if_splits)

lemma splitext_root_subset: "set (fst (generic_splitext q sep extsep)) \<subseteq> set q"
  by (auto simp: generic_splitext_def Let_def split: option.splits
           dest!: splitext_scan_Some dest: in_set_takeD)

lemma base_name_no_sep: "CHR ''/'' \<notin> set (base_name_of posixpath p)"
  using splitext_root_subset [of "posix_basename p" "CHR ''/''" "CHR ''.''"] basename_no_sep [of p]
  by (auto simp: base_name_of_def posixpath_def posix_splitext_def)

lemma not_absolute: "CHR ''/'' \<notin> set b \<Longrightarrow> \<not> startswith (b @ ''.'' @ ext) ''/''"
  by (cases b) (auto simp: startswith_def)

lemma out_path_posix:
  "out_path_of posixpath in_path out_dir ext =
     (if out_dir = [] \<or> endswith out_dir ''/'' then out_dir else out_dir @ ''/'') @
     base_name_of posixpath in_path @ ''.'' @ ext"
  using not_absolute [OF base_name_no_sep, of in_path ext]
  by (simp add: out_path_of_def posix_join_def posixpath_def)

lemma out_path_has_dot: "CHR ''.'' \<in> set (out_path_of posixpath in_path out_dir ext)"
  by (simp add: out_path_posix)

subsection \<open>The command and the entry point\<close>

lemma codec_args_tokens:
  "count_list (codec_args ext q) ''loudnorm'' = 0"
  "count_list (codec_args ext q) ''-af'' = 0"
  "''-sn'' \<notin> set (codec_args ext q)"
  by (simp_all add: codec_args_def)

lemma build_cmd_eq:
  "build_cmd ff i out ext q n s =
     [ff, ''-y'', ''-i'', i, ''-vn''] @ codec_args ext q @ filter_args n s @ [out]"
  by (simp add: build_cmd_def)

lemma start_convert_launch:
  assumes "input_path win \<noteq> []" "isdir (the_disk w) (output_dir win)"
      and "fst (ensure_ffmpeg h True w) = Some ff" "ff \<noteq> []"
  shows "fst (start_convert h win w) =
           Some (build_cmd ff (input_path win)
                   (out_path_of (os_path h) (input_path win) (output_dir win) (format_combo win))
                   (format_combo win) (quality_combo win) (normalize_box win) (strip_subs_box win),
                 output_dir win)"
  using assms by (cases "ensure_ffmpeg h True w") (simp add: start_convert_def Let_def)

lemma start_convert_Some:
  assumes "fst (start_convert h win w) = Some (cmd, wd)"
  shows "\<exists>ff w1. ensure_ffmpeg h True w = (Some ff, w1) \<and> ff \<noteq> [] \<and> input_path win \<noteq> []
           \<and> isdir (the_disk w) (output_dir win) \<and> wd = output_dir win
           \<and> cmd = build_cmd ff (input_path win)
                   (out_path_of (os_path h) (input_path win) (output_dir win) (format_combo win))
                   (format_combo win) (quality_combo win) (normalize_box win) (strip_subs_box win)"
proof -
  obtain r w1 where e: "ensure_ffmpeg h True w = (r, w1)" by (cases "ensure_ffmpeg h True w")
  show ?thesis
    using assms e by (cases r) (auto simp: start_convert_def Let_def split: if_splits)
qed

lemma start_convert_None:
  "fst (ensure_ffmpeg h True w) = None \<Longrightarrow> fst (start_convert h win w) = None"
  by (cases "ensure_ffmpeg h True w") (simp add: start_convert_def)

lemma conversion_fst:
  "fst (conversion h win w) =
     (case fst (start_convert h win w) of None \<Rightarrow> None
      | Some (cmd, wd) \<Rightarrow> Some (run h cmd wd))"
  by (cases "start_convert h win w") (auto simp: conversion_def split: option.splits)

subsection \<open>Traces\<close>

lemma emit_trace [simp]: "trace (emit ev w) = trace w @ [ev]"
  by (simp add: emit_def)

lemma emit_disk [simp]: "the_disk (emit ev w) = the_disk w"
  by (simp add: emit_def)

lemma subprocess_call_trace:
  "\<exists>rest. trace (snd (subprocess_call h args fl w)) = trace w @ rest"
  by (auto simp: subprocess_call_def split: sum.splits)

lemma install_windows_trace:
  "\<exists>rest. trace (snd (install_ffmpeg_windows h parent p w)) = trace w @ rest"
proof -
  obtain r w2 where c: "subprocess_call h [''cmd'', ''/c'', p] (new_console_flag h)
      (if parent then emit (MessageBox Question ''FFmpeg not found'') w else w) = (r, w2)"
    by (cases "subprocess_call h [''cmd'', ''/c'', p] (new_console_flag h)
      (if parent then emit (MessageBox Question ''FFmpeg not found'') w else w)")
  from subprocess_call_trace [of h "[''cmd'', ''/c'', p]" "new_console_flag h"
      "if parent then emit (MessageBox Question ''FFmpeg not found'') w else w"] c
  obtain rest where "trace w2 = trace (if parent then emit (MessageBox Question ''FFmpeg not found'') w else w) @ rest"
    by auto
  with c show ?thesis
    by (cases r) (auto simp: install_ffmpeg_windows_def Let_def)
qed

lemma install_macos_trace:
  "\<exists>rest. trace (snd (install_ffmpeg_macos h parent w)) = trace w @ rest"
  by (auto simp: install_ffmpeg_macos_def subprocess_call_def Let_def split: sum.splits prod.splits)

lemma ensure_trace:
  "\<exists>rest. trace (snd (ensure_ffmpeg h parent w)) = trace w @ Probe # rest"
proof -
  obtain okw ww where iw: "install_ffmpeg_windows h parent
      (path_join (os_path h) (app_base_dir h) ''ffmpeginstall.bat'') (emit Probe w) = (okw, ww)"
    by (cases "install_ffmpeg_windows h parent
      (path_join (os_path h) (app_base_dir h) ''ffmpeginstall.bat'') (emit Probe w)")
  obtain okm wm where im: "install_ffmpeg_macos h parent (emit Probe w) = (okm, wm)"
    by (cases "install_ffmpeg_macos h parent (emit Probe w)")
  from install_windows_trace [of h parent
      "path_join (os_path h) (app_base_dir h) ''ffmpeginstall.bat''" "emit Probe w"] iw
  obtain rw where rw: "trace ww = trace w @ Probe # rw" by auto
  from install_macos_trace [of h parent "emit Probe w"] im
  obtain rm where rm: "trace wm = trace w @ Probe # rm" by auto
  show ?thesis
    using iw im rw rm
    by (auto simp: ensure_ffmpeg_def probe_def Let_def split: prod.splits)
qed

lemma start_convert_trace:
  assumes "input_path win \<noteq> []" "isdir (the_disk w) (output_dir win)"
  shows "\<exists>rest. trace (snd (start_convert h win w)) = trace w @ Probe # rest"
proof -
  obtain r w1 where e: "ensure_ffmpeg h True w = (r, w1)" by (cases "ensure_ffmpeg h True w")
  with ensure_trace [of h True w] obtain rest where "trace w1 = trace w @ Probe # rest" by auto
  with e assms show ?thesis
    by (auto simp: start_convert_def Let_def)
qed

subsection \<open>The worker's loop\<close>

lemma emit_lines_eq: "emit_lines ls tr = tr @ map LogSignal ls"
  by (induction ls arbitrary: tr) auto

lemma outcome_logs [simp]: "outcome (map LogSignal ls @ tr) = outcome tr"
  by (induction ls) auto

lemma log_lines_logs [simp]: "log_lines (map LogSignal ls @ tr) = ls @ log_lines tr"
  by (induction ls) auto

lemma finished_last_logs [simp]: "finished_last (map LogSignal ls @ tr) = finished_last tr"
  by (induction ls) auto

lemma finished_last_only_logs [simp]: "finished_last (map LogSignal ls)"
  by (induction ls) auto

lemma log_lines_only_logs [simp]: "log_lines (map LogSignal ls) = ls"
  by (induction ls) auto

subsection \<open>The example hosts, evaluated\<close>

lemma linux_start:
  "fst (start_convert linux_host song_window linux_world) =
     Some ([''/usr/bin/ffmpeg'', ''-y'', ''-i'', ''/x/song.mov'', ''-vn'', ''-c:a'', ''libmp3lame'',
            ''-b:a'', ''192k'', ''-af'', ''loudnorm'', ''/out/song.mp3''], ''/out'')"
  by code_simp

lemma linux_ensure: "fst (ensure_ffmpeg linux_host True linux_world) = Some ''/usr/bin/ffmpeg''"
  by code_simp

lemma bare_ensure: "fst (ensure_ffmpeg linux_host True bare_world) = None"
  by code_simp

lemma song_root: "fst (posix_splitext (posix_basename ''/x/song.mov'')) = ''song''"
  by code_simp

lemma opus_start:
  "fst (start_convert linux_host opus_window linux_world) =
     Some ([''/usr/bin/ffmpeg'', ''-y'', ''-i'', ''/x/song.mov'', ''-vn'', ''-c:a'', ''libopus'',
            ''-b:a'', ''64k'', ''-af'', ''loudnorm'', ''/out/song.opus''], ''/out'')"
  by code_simp

lemma subs_start:
  "fst (start_convert linux_host subs_window linux_world) =
     Some ([''/usr/bin/ffmpeg'', ''-y'', ''-i'', ''/x/song.mov'', ''-vn'', ''-c:a'', ''flac'',
            ''-af'', ''loudnorm'', ''-sn'', ''/out/song.flac''], ''/out'')"
  by code_simp

section \<open>The claims\<close>

text \<open>
  Claim C1. For each of the eight formats and each of the three quality presets, every
  command \<^verbatim>\<open>start_convert\<close> hands to a worker carries, right after \<^verbatim>\<open>-vn\<close>, exactly
  the codec arguments of the table and nothing else before the filter arguments:
  libmp3lame with 320k, 192k, 128k; libopus with 160k, 128k, 64k; pcm_s16le and flac
  with no bitrate argument; aac (for m4a and aac) with 256k, 192k, 192k; libvorbis with
  quality 6, 4, 4; wmav2 with 192k for every preset.
\<close>

theorem codec_table:
  assumes "fst (start_convert h win w) = Some (cmd, wd)"
      and "format_combo win \<in> set format_items"
      and "quality_combo win \<in> set quality_items"
  shows "\<exists>tool args.
           map_of
             [((''mp3'', ''High quality''), [''-c:a'', ''libmp3lame'', ''-b:a'', ''320k'']),
              ((''mp3'', ''Balanced''), [''-c:a'', ''libmp3lame'', ''-b:a'', ''192k'']),
              ((''mp3'', ''Smaller file''), [''-c:a'', ''libmp3lame'', ''-b:a'', ''128k'']),
              ((''opus'', ''High quality''), [''-c:a'', ''libopus'', ''-b:a'', ''160k'']),
              ((''opus'', ''Balanced''), [''-c:a'', ''libopus'', ''-b:a'', ''128k'']),
              ((''opus'', ''Smaller file''), [''-c:a'', ''libopus'', ''-b:a'', ''64k'']),
              ((''wav'', ''High quality''), [''-c:a'', ''pcm_s16le'']),
              ((''wav'', ''Balanced''), [''-c:a'', ''pcm_s16le'']),
              ((''wav'', ''Smaller file''), [''-c:a'', ''pcm_s16le'']),
              ((''flac'', ''High quality''), [''-c:a'', ''flac'']),
              ((''flac'', ''Balanced''), [''-c:a'', ''flac'']),
              ((''flac'', ''Smaller file''), [''-c:a'', ''flac'']),
              ((''m4a'', ''High quality''), [''-c:a'', ''aac'', ''-b:a'', ''256k'']),
              ((''m4a'', ''Balanced''), [''-c:a'', ''aac'', ''-b:a'', ''192k'']),
              ((''m4a'', ''Smaller file''), [''-c:a'', ''aac'', ''-b:a'', ''192k'']),
              ((''aac'', ''High quality''), [''-c:a'', ''aac'', ''-b:a'', ''256k'']),
              ((''aac'', ''Balanced''), [''-c:a'', ''aac'', ''-b:a'', ''192k'']),
              ((''aac'', ''Smaller file''), [''-c:a'', ''aac'', ''-b:a'', ''192k'']),
              ((''ogg'', ''High quality''), [''-c:a'', ''libvorbis'', ''-q:a'', ''6'']),
              ((''ogg'', ''Balanced''), [''-c:a'', ''libvorbis'', ''-q:a'', ''4'']),
              ((''ogg'', ''Smaller file''), [''-c:a'', ''libvorbis'', ''-q:a'', ''4'']),
              ((''wma'', ''High quality''), [''-c:a'', ''wmav2'', ''-b:a'', ''192k'']),
              ((''wma'', ''Balanced''), [''-c:a'', ''wmav2'', ''-b:a'', ''192k'']),
              ((''wma'', ''Smaller file''), [''-c:a'', ''wmav2'', ''-b:a'', ''192k''])]
             (format_combo win, quality_combo win) = Some args
         \<and> fst (ensure_ffmpeg h True w) = Some tool
         \<and> cmd = [tool, ''-y'', ''-i'', input_path win, ''-vn''] @ args
                 @ (if normalize_box win then [''-af'', ''loudnorm''] else [])
                 @ (if strip_subs_box win then [''-sn''] else [])
                 @ [out_path_of (os_path h) (input_path win) (output_dir win) (format_combo win)]"
proof -
  from start_convert_Some [OF assms(1)] obtain ff where
    e: "fst (ensure_ffmpeg h True w) = Some ff" and
    c: "cmd = build_cmd ff (input_path win)
                   (out_path_of (os_path h) (input_path win) (output_dir win) (format_combo win))
                   (format_combo win) (quality_combo win) (normalize_box win) (strip_subs_box win)"
    by auto
  have f: "format_combo win = ''mp3'' \<or> format_combo win = ''opus'' \<or> format_combo win = ''wav''
         \<or> format_combo win = ''flac'' \<or> format_combo win = ''m4a'' \<or> format_combo win = ''aac''
         \<or> format_combo win = ''ogg'' \<or> format_combo win = ''wma''"
    using assms(2) by (simp add: format_items_def)
  have q: "quality_combo win = ''High quality'' \<or> quality_combo win = ''Balanced''
         \<or> quality_combo win = ''Smaller file''"
    using assms(3) by (simp add: quality_items_def)
  show ?thesis
    using f q e unfolding c build_cmd_def codec_args_def filter_args_def Let_def
    by (elim disjE) simp_all
qed

text \<open>An instance, the example of the specification: opus at Smaller file gives 64k.\<close>

theorem codec_table_witness:
  "fst (start_convert linux_host opus_window linux_world) =
     Some ([''/usr/bin/ffmpeg'', ''-y'', ''-i'', ''/x/song.mov'', ''-vn'', ''-c:a'', ''libopus'',
            ''-b:a'', ''64k'', ''-af'', ''loudnorm'', ''/out/song.opus''], ''/out'')
   \<and> format_combo opus_window \<in> set format_items
   \<and> quality_combo opus_window \<in> set quality_items
   \<and> (\<exists>tool. fst (ensure_ffmpeg linux_host True linux_world) = Some tool
         \<and> [''/usr/bin/ffmpeg'', ''-y'', ''-i'', ''/x/song.mov'', ''-vn'', ''-c:a'', ''libopus'',
            ''-b:a'', ''64k'', ''-af'', ''loudnorm'', ''/out/song.opus'']
           = [tool, ''-y'', ''-i'', input_path opus_window, ''-vn'']
             @ [''-c:a'', ''libopus'', ''-b:a'', ''64k'']
             @ (if normalize_box opus_window then [''-af'', ''loudnorm''] else [])
             @ (if strip_subs_box opus_window then [''-sn''] else [])
             @ [out_path_of (os_path linux_host) (input_path opus_window)
                  (output_dir opus_window) (format_combo opus_window)])"
proof -
  have h2: "format_combo opus_window \<in> set format_items"
    by (simp add: opus_window_def format_items_def)
  have h3: "quality_combo opus_window \<in> set quality_items"
    by (simp add: opus_window_def quality_items_def)
  from codec_table [OF opus_start h2 h3] opus_start h2 h3 linux_ensure
  show ?thesis
    by (auto simp: opus_window_def song_window_def)
qed

text \<open>
  Claim C2, as amended. On every host, when \<^verbatim>\<open>start_convert\<close> creates a worker, the
  last argument of its command is \<^verbatim>\<open>os.path.join(output_dir, base + "." + format)\<close>,
  where \<open>base\<close> is \<^verbatim>\<open>os.path.splitext(os.path.basename(input))[0]\<close>, and the second
  argument is \<^verbatim>\<open>-y\<close>. On a POSIX host that path is the output directory, then a
  \<^verbatim>\<open>/\<close> unless the directory is empty or already ends with one, then \<open>base.format\<close>.
  The worker is created whether or not a file exists at that path: the disk is asked
  only about the output directory and the tool.
\<close>

theorem output_path_join:
  assumes "input_path win \<noteq> []" and "isdir (the_disk w) (output_dir win)"
      and "fst (ensure_ffmpeg h True w) = Some ff" and "ff \<noteq> []"
  shows "\<exists>cmd. fst (start_convert h win w) = Some (cmd, output_dir win)
           \<and> last cmd =
               path_join (os_path h) (output_dir win)
                 (fst (path_splitext (os_path h) (path_basename (os_path h) (input_path win)))
                  @ ''.'' @ format_combo win)
           \<and> cmd ! 1 = ''-y''
           \<and> (os_path h = posixpath \<longrightarrow>
                last cmd =
                  (if output_dir win = [] \<or> endswith (output_dir win) ''/''
                   then output_dir win else output_dir win @ ''/'')
                  @ fst (posix_splitext (posix_basename (input_path win)))
                  @ ''.'' @ format_combo win)"
proof -
  let ?out = "out_path_of (os_path h) (input_path win) (output_dir win) (format_combo win)"
  let ?cmd = "build_cmd ff (input_path win) ?out (format_combo win) (quality_combo win)
                (normalize_box win) (strip_subs_box win)"
  have l: "fst (start_convert h win w) = Some (?cmd, output_dir win)"
    by (rule start_convert_launch [OF assms])
  have a: "last ?cmd = ?out" by (simp add: build_cmd_eq)
  have b: "?cmd ! 1 = ''-y''" by (simp add: build_cmd_eq)
  have c: "?out = path_join (os_path h) (output_dir win)
                 (fst (path_splitext (os_path h) (path_basename (os_path h) (input_path win)))
                  @ ''.'' @ format_combo win)"
    by (simp add: out_path_of_def base_name_of_def)
  have d: "?out = (if output_dir win = [] \<or> endswith (output_dir win) ''/''
                   then output_dir win else output_dir win @ ''/'')
                  @ fst (posix_splitext (posix_basename (input_path win)))
                  @ ''.'' @ format_combo win" if "os_path h = posixpath"
    using out_path_posix [of "input_path win" "output_dir win" "format_combo win"] that
    by (simp add: base_name_of_def posixpath_def)
  from l a b c d show ?thesis by metis
qed

text \<open>
  An instance, the example of the specification: input \<^verbatim>\<open>/x/song.mov\<close>, directory
  \<^verbatim>\<open>/out\<close>, format mp3, on a disk where \<^verbatim>\<open>/out/song.mp3\<close> already exists.
\<close>

theorem output_path_join_witness:
  "os_path linux_host = posixpath
   \<and> input_path song_window \<noteq> []
   \<and> isdir (the_disk linux_world) (output_dir song_window)
   \<and> fst (ensure_ffmpeg linux_host True linux_world) = Some ''/usr/bin/ffmpeg''
   \<and> isfile (the_disk linux_world) ''/out/song.mp3''
   \<and> (\<exists>cmd. fst (start_convert linux_host song_window linux_world) = Some (cmd, ''/out'')
            \<and> last cmd = ''/out/song.mp3'' \<and> cmd ! 1 = ''-y'')"
proof -
  have h1: "os_path linux_host = posixpath" by (simp add: linux_host_def)
  have h2: "input_path song_window \<noteq> []" by (simp add: song_window_def)
  have h3: "isdir (the_disk linux_world) (output_dir song_window)"
    by (simp add: linux_world_def linux_disk_def song_window_def)
  have h4: "''/usr/bin/ffmpeg'' \<noteq> []" by simp
  have h5: "isfile (the_disk linux_world) ''/out/song.mp3''"
    by (simp add: linux_world_def linux_disk_def)
  from output_path_join [OF h2 h3 linux_ensure h4] h1
  obtain cmd where c: "fst (start_convert linux_host song_window linux_world)
        = Some (cmd, output_dir song_window)"
      "last cmd = (if output_dir song_window = [] \<or> endswith (output_dir song_window) ''/''
                   then output_dir song_window else output_dir song_window @ ''/'')
                  @ fst (posix_splitext (posix_basename (input_path song_window)))
                  @ ''.'' @ format_combo song_window"
      "cmd ! 1 = ''-y''"
    by blast
  from c(2) have "last cmd = ''/out/song.mp3''"
    by (simp add: song_window_def endswith_def song_root)
  with c(1,3) h1 h2 h3 h5 linux_ensure show ?thesis
    by (simp add: song_window_def)
qed

text \<open>
  The claim as stated fails when the output directory is the root: the template
  \<open>{output_directory}/{base}.{format}\<close> reads \<^verbatim>\<open>//song.mp3\<close>, the program computes
  \<^verbatim>\<open>/song.mp3\<close>.
\<close>

theorem output_path_root_counterexample:
  "out_path_of posixpath ''/x/song.mov'' ''/'' ''mp3'' = ''/song.mp3''
   \<and> ''/'' @ ''/'' @ base_name_of posixpath ''/x/song.mov'' @ ''.'' @ ''mp3'' = ''//song.mp3''"
  by code_simp

text \<open>
  Claim C3. When the child process starts and exits with status \<open>rc\<close>, the worker
  returns and the value of its \<^verbatim>\<open>finished\<close> signal is \<open>rc = 0\<close>, whatever lines the
  child wrote.
\<close>

theorem exit_status_outcome:
  assumes "popen h cmd wd (worker_flags h) = Inr (Child ls (Some rc))"
  shows "snd (run h cmd wd) = Returned \<and> outcome (fst (run h cmd wd)) = Some (rc = 0)"
  using assms by (simp add: run_def emit_lines_eq)

text \<open>
  An instance: a child that writes a line announcing success and exits with status 1
  is reported as failed.
\<close>

theorem exit_status_outcome_witness:
  "popen (linux_host\<lparr>popen := \<lambda>cmd wd fl. Inr (Child [''finished successfully''] (Some 1))\<rparr>)
         [''ffmpeg''] ''/out''
         (worker_flags (linux_host\<lparr>popen := \<lambda>cmd wd fl. Inr (Child [''finished successfully''] (Some 1))\<rparr>))
     = Inr (Child [''finished successfully''] (Some 1))
   \<and> snd (run (linux_host\<lparr>popen := \<lambda>cmd wd fl. Inr (Child [''finished successfully''] (Some 1))\<rparr>)
             [''ffmpeg''] ''/out'') = Returned
   \<and> outcome (fst (run (linux_host\<lparr>popen := \<lambda>cmd wd fl. Inr (Child [''finished successfully''] (Some 1))\<rparr>)
                     [''ffmpeg''] ''/out'')) = Some False"
  using exit_status_outcome
    [of "linux_host\<lparr>popen := \<lambda>cmd wd fl. Inr (Child [''finished successfully''] (Some 1))\<rparr>"
        "[''ffmpeg'']" "''/out''" "[''finished successfully'']" 1]
  by (simp add: linux_host_def)

text \<open>
  Claim C4. The claim says that every failure to start the executable yields one
  diagnostic line and a failure outcome, with no exception, a permission error like a
  missing file. The worker catches \<^verbatim>\<open>FileNotFoundError\<close> only. With a file named
  \<^verbatim>\<open>ffmpeg\<close> beside the application that is not executable, the locator returns it,
  \<^verbatim>\<open>Popen\<close> raises \<^verbatim>\<open>PermissionError\<close>, and \<^verbatim>\<open>run\<close> ends by that exception having
  emitted no signal at all; with a missing executable it emits the diagnostic line and
  \<^verbatim>\<open>finished(False)\<close> and returns.
\<close>

theorem permission_error_escapes:
  "fst (conversion bundled_host song_window bundled_world) = Some ([], Raised PermissionError)
   \<and> fst (conversion (linux_host\<lparr>popen := \<lambda>cmd wd fl. Inl FileNotFoundError\<rparr>)
            song_window linux_world)
     = Some ([LogSignal ''ERROR: ffmpeg execution failed. Check installation.\<newline>'',
              FinishedSignal False], Returned)"
  by code_simp

text \<open>
  Claim C5, as amended. On Windows, when no ffmpeg is found, the installer script exists
  beside the application and the user confirms (or no parent window is given), the
  locator runs \<^verbatim>\<open>cmd /c <installer>\<close> in a new console with \<^verbatim>\<open>subprocess.call\<close>,
  which returns only when that process has exited; its exit status \<open>rc\<close> is ignored.
  The second probe comes after the wait and reads the disk \<open>d'\<close> the installer left
  at its exit.
\<close>

theorem installer_waited:
  assumes "sys_platform h = ''win32''"
      and "\<not> truthy (find_ffmpeg_binary h (the_disk w))"
      and "isfile (the_disk w) (path_join (os_path h) (app_base_dir h) ''ffmpeginstall.bat'')"
      and "parent \<longrightarrow> reply_yes h"
      and "run_to_exit h [''cmd'', ''/c'', path_join (os_path h) (app_base_dir h) ''ffmpeginstall.bat'']
             (the_disk w) = Inr (rc, d')"
  shows "fst (ensure_ffmpeg h parent w) =
           (if truthy (find_ffmpeg_binary h d') then find_ffmpeg_binary h d' else None)
       \<and> (\<exists>pre post. trace (snd (ensure_ffmpeg h parent w)) =
             pre @ [ProcSpawn [''cmd'', ''/c'', path_join (os_path h) (app_base_dir h) ''ffmpeginstall.bat'']
                      CREATE_NEW_CONSOLE,
                    ProcWait [''cmd'', ''/c'', path_join (os_path h) (app_base_dir h) ''ffmpeginstall.bat''] rc,
                    Probe] @ post)"
proof -
  let ?inst = "path_join (os_path h) (app_base_dir h) ''ffmpeginstall.bat''"
  let ?args = "[''cmd'', ''/c'', ?inst]"
  let ?w1 = "if parent then emit (MessageBox Question ''FFmpeg not found'') (emit Probe w)
             else emit Probe w"
  let ?w2 = "emit (ProcWait ?args rc) (emit (ProcSpawn ?args CREATE_NEW_CONSOLE) (?w1\<lparr>the_disk := d'\<rparr>))"
  have win: "startswith (sys_platform h) ''win''"
    using assms(1) by (simp add: startswith_def)
  have fl: "new_console_flag h = CREATE_NEW_CONSOLE"
    using assms(1) by (simp add: new_console_flag_def)
  have d1: "the_disk ?w1 = the_disk w" by simp
  have call: "subprocess_call h ?args CREATE_NEW_CONSOLE ?w1 = (Inr rc, ?w2)"
    using assms(5) d1 by (simp add: subprocess_call_def)
  have inst: "install_ffmpeg_windows h parent ?inst (emit Probe w) = (True, ?w2)"
    using assms(4) call fl by (simp add: install_ffmpeg_windows_def Let_def)
  have d2: "the_disk ?w2 = d'" by (simp add: emit_def)
  have t2: "trace ?w2 = trace ?w1 @ [ProcSpawn ?args CREATE_NEW_CONSOLE, ProcWait ?args rc]"
    by (simp add: emit_def)
  have e: "ensure_ffmpeg h parent w =
      (if truthy (find_ffmpeg_binary h d') then (find_ffmpeg_binary h d', emit Probe ?w2)
       else (None, if parent then emit (MessageBox Critical ''FFmpeg Missing'') (emit Probe ?w2)
                   else emit Probe ?w2))"
    using assms(2,3) win inst d2
    by (simp add: ensure_ffmpeg_def probe_def Let_def)
  have r: "fst (ensure_ffmpeg h parent w) =
           (if truthy (find_ffmpeg_binary h d') then find_ffmpeg_binary h d' else None)"
    by (simp add: e)
  have "\<exists>post. trace (snd (ensure_ffmpeg h parent w)) =
          trace ?w1 @ [ProcSpawn ?args CREATE_NEW_CONSOLE, ProcWait ?args rc, Probe] @ post"
    unfolding e using t2 by (simp add: emit_def)
  then have "\<exists>pre post. trace (snd (ensure_ffmpeg h parent w)) =
          pre @ [ProcSpawn ?args CREATE_NEW_CONSOLE, ProcWait ?args rc, Probe] @ post"
    by blast
  with r show ?thesis by blast
qed

text \<open>
  An instance: the installer puts ffmpeg on the search path, and the second probe
  finds it.
\<close>

theorem installer_waited_witness:
  "sys_platform windows_host = ''win32''
   \<and> \<not> truthy (find_ffmpeg_binary windows_host (the_disk windows_world))
   \<and> isfile (the_disk windows_world)
        (path_join (os_path windows_host) (app_base_dir windows_host) ''ffmpeginstall.bat'')
   \<and> reply_yes windows_host
   \<and> fst (ensure_ffmpeg windows_host True windows_world) = Some ''C:/ffmpeg/bin/ffmpeg.EXE''
   \<and> (\<exists>pre post. trace (snd (ensure_ffmpeg windows_host True windows_world)) =
         pre @ [ProcSpawn [''cmd'', ''/c'', ''C:/app'' @ [CHR 0x5C] @ ''ffmpeginstall.bat'']
                  CREATE_NEW_CONSOLE,
                ProcWait [''cmd'', ''/c'', ''C:/app'' @ [CHR 0x5C] @ ''ffmpeginstall.bat''] 0,
                Probe] @ post)"
proof -
  let ?d' = "windows_disk\<lparr>which := (\<lambda>n. if n = ''ffmpeg'' then Some ''C:/ffmpeg/bin/ffmpeg.EXE''
                                         else None)\<rparr>"
  have h1: "sys_platform windows_host = ''win32''" by (simp add: windows_host_def)
  have h2: "\<not> truthy (find_ffmpeg_binary windows_host (the_disk windows_world))" by code_simp
  have h3: "isfile (the_disk windows_world)
        (path_join (os_path windows_host) (app_base_dir windows_host) ''ffmpeginstall.bat'')"
    by code_simp
  have h4: "True \<longrightarrow> reply_yes windows_host" by (simp add: windows_host_def)
  have h5: "run_to_exit windows_host
        [''cmd'', ''/c'', path_join (os_path windows_host) (app_base_dir windows_host) ''ffmpeginstall.bat'']
        (the_disk windows_world) = Inr (0, ?d')"
    by (simp add: windows_host_def windows_world_def)
  have f: "find_ffmpeg_binary windows_host ?d' = Some ''C:/ffmpeg/bin/ffmpeg.EXE''" by code_simp
  have p: "path_join (os_path windows_host) (app_base_dir windows_host) ''ffmpeginstall.bat''
           = ''C:/app'' @ [CHR 0x5C] @ ''ffmpeginstall.bat''"
    by (simp add: windows_host_def)
  from installer_waited [OF h1 h2 h3 h4 h5] h1 h2 h3 h4 show ?thesis
    unfolding f p by simp
qed

text \<open>
  The claim as stated fails: the trace of the locator on that host contains the wait
  for the installer, and the result is the executable that exists only once the
  installer has finished.
\<close>

theorem installer_counterexample:
  "\<not> fire_and_forget (trace (snd (ensure_ffmpeg windows_host True windows_world)))
   \<and> find_ffmpeg_binary windows_host (the_disk windows_world) = None
   \<and> fst (ensure_ffmpeg windows_host True windows_world) = Some ''C:/ffmpeg/bin/ffmpeg.EXE''"
  by code_simp

text \<open>
  Claim C6. Every command \<^verbatim>\<open>start_convert\<close> hands to a worker is the tool path the
  locator returned, \<^verbatim>\<open>-y\<close>, \<^verbatim>\<open>-i\<close>, the input path, \<^verbatim>\<open>-vn\<close>, then the codec
  arguments, then the filter arguments, and last the computed output path.
\<close>

theorem command_structure:
  assumes "fst (start_convert h win w) = Some (cmd, workdir)"
  shows "\<exists>ffmpeg_path.
           fst (ensure_ffmpeg h True w) = Some ffmpeg_path
         \<and> cmd = [ffmpeg_path, ''-y'', ''-i'', input_path win, ''-vn'']
                 @ codec_args (format_combo win) (quality_combo win)
                 @ filter_args (normalize_box win) (strip_subs_box win)
                 @ [out_path_of (os_path h) (input_path win) (output_dir win) (format_combo win)]"
  using start_convert_Some [OF assms] by (auto simp: build_cmd_eq)

text \<open>An instance: the command for \<^verbatim>\<open>/x/song.mov\<close> to mp3 at the Balanced preset.\<close>

theorem command_structure_witness:
  "fst (start_convert linux_host song_window linux_world) =
     Some ([''/usr/bin/ffmpeg'', ''-y'', ''-i'', ''/x/song.mov'', ''-vn'', ''-c:a'', ''libmp3lame'',
            ''-b:a'', ''192k'', ''-af'', ''loudnorm'', ''/out/song.mp3''], ''/out'')
   \<and> (\<exists>ffmpeg_path.
           fst (ensure_ffmpeg linux_host True linux_world) = Some ffmpeg_path
         \<and> [''/usr/bin/ffmpeg'', ''-y'', ''-i'', ''/x/song.mov'', ''-vn'', ''-c:a'', ''libmp3lame'',
            ''-b:a'', ''192k'', ''-af'', ''loudnorm'', ''/out/song.mp3'']
            = [ffmpeg_path, ''-y'', ''-i'', input_path song_window, ''-vn'']
                 @ codec_args (format_combo song_window) (quality_combo song_window)
                 @ filter_args (normalize_box song_window) (strip_subs_box song_window)
                 @ [out_path_of (os_path linux_host) (input_path song_window)
                      (output_dir song_window) (format_combo song_window)])"
  using command_structure [OF linux_start] linux_start linux_ensure by (simp add: song_window_def)

text \<open>
  Claim C7. In every command \<^verbatim>\<open>start_convert\<close> hands to a worker, for every state of
  the two check boxes: when the loudness box is set, \<^verbatim>\<open>-af\<close> and \<^verbatim>\<open>loudnorm\<close> occur
  exactly once each, as neighbours in that order; when it is unset, neither occurs. The
  command contains \<^verbatim>\<open>-sn\<close> exactly when the subtitle box is set. The operands, that is
  the tool path, the input path and the output path, are assumed not to be one of these
  three words themselves; on a POSIX host the output path never is.
\<close>

theorem toggles:
  assumes "fst (start_convert h win w) = Some (cmd, wd)"
      and "fst (ensure_ffmpeg h True w) = Some tool"
      and "tool \<notin> {''-af'', ''loudnorm'', ''-sn''}"
      and "input_path win \<notin> {''-af'', ''loudnorm'', ''-sn''}"
      and "os_path h = posixpath
           \<or> out_path_of (os_path h) (input_path win) (output_dir win) (format_combo win)
               \<notin> {''-af'', ''loudnorm'', ''-sn''}"
  shows "count_list cmd ''-af'' = (if normalize_box win then 1 else 0)
       \<and> count_list cmd ''loudnorm'' = (if normalize_box win then 1 else 0)
       \<and> (normalize_box win \<longrightarrow> (\<exists>pre post. cmd = pre @ [''-af'', ''loudnorm''] @ post))
       \<and> (''-sn'' \<in> set cmd \<longleftrightarrow> strip_subs_box win)"
proof -
  let ?out = "out_path_of (os_path h) (input_path win) (output_dir win) (format_combo win)"
  from start_convert_Some [OF assms(1)] assms(2) have
    c: "cmd = build_cmd tool (input_path win) ?out
                   (format_combo win) (quality_combo win) (normalize_box win) (strip_subs_box win)"
    by auto
  have o: "?out \<noteq> ''loudnorm''" "?out \<noteq> ''-af''" "?out \<noteq> ''-sn''"
    using assms(5) out_path_has_dot [of "input_path win" "output_dir win" "format_combo win"]
    by auto
  have counts: "count_list cmd ''-af'' = (if normalize_box win then 1 else 0)"
      "count_list cmd ''loudnorm'' = (if normalize_box win then 1 else 0)"
      "''-sn'' \<in> set cmd \<longleftrightarrow> strip_subs_box win"
    using assms(3,4) o unfolding c
    by (auto simp: build_cmd_def filter_args_def codec_args_tokens)
  have adj: "\<exists>pre post. cmd = pre @ [''-af'', ''loudnorm''] @ post" if "normalize_box win"
  proof -
    have "cmd = ([tool, ''-y'', ''-i'', input_path win, ''-vn'']
                  @ codec_args (format_combo win) (quality_combo win))
                @ [''-af'', ''loudnorm'']
                @ ((if strip_subs_box win then [''-sn''] else []) @ [?out])"
      using that unfolding c by (simp add: build_cmd_def filter_args_def)
    then show ?thesis by blast
  qed
  from counts adj show ?thesis by blast
qed

text \<open>An instance: flac with both boxes set.\<close>

theorem toggles_witness:
  "fst (start_convert linux_host subs_window linux_world) =
     Some ([''/usr/bin/ffmpeg'', ''-y'', ''-i'', ''/x/song.mov'', ''-vn'', ''-c:a'', ''flac'',
            ''-af'', ''loudnorm'', ''-sn'', ''/out/song.flac''], ''/out'')
   \<and> fst (ensure_ffmpeg linux_host True linux_world) = Some ''/usr/bin/ffmpeg''
   \<and> os_path linux_host = posixpath
   \<and> normalize_box subs_window \<and> strip_subs_box subs_window
   \<and> count_list [''/usr/bin/ffmpeg'', ''-y'', ''-i'', ''/x/song.mov'', ''-vn'', ''-c:a'', ''flac'',
            ''-af'', ''loudnorm'', ''-sn'', ''/out/song.flac''] ''-af'' = 1
   \<and> count_list [''/usr/bin/ffmpeg'', ''-y'', ''-i'', ''/x/song.mov'', ''-vn'', ''-c:a'', ''flac'',
            ''-af'', ''loudnorm'', ''-sn'', ''/out/song.flac''] ''loudnorm'' = 1
   \<and> (\<exists>pre post. [''/usr/bin/ffmpeg'', ''-y'', ''-i'', ''/x/song.mov'', ''-vn'', ''-c:a'', ''flac'',
            ''-af'', ''loudnorm'', ''-sn'', ''/out/song.flac''] = pre @ [''-af'', ''loudnorm''] @ post)
   \<and> ''-sn'' \<in> set [''/usr/bin/ffmpeg'', ''-y'', ''-i'', ''/x/song.mov'', ''-vn'', ''-c:a'', ''flac'',
            ''-af'', ''loudnorm'', ''-sn'', ''/out/song.flac'']"
proof -
  have h3: "''/usr/bin/ffmpeg'' \<notin> {''-af'', ''loudnorm'', ''-sn''}" by simp
  have h4: "input_path subs_window \<notin> {''-af'', ''loudnorm'', ''-sn''}"
    by (simp add: subs_window_def song_window_def)
  have h5: "os_path linux_host = posixpath" by (simp add: linux_host_def)
  have h5': "os_path linux_host = posixpath
       \<or> out_path_of (os_path linux_host) (input_path subs_window) (output_dir subs_window)
            (format_combo subs_window) \<notin> {''-af'', ''loudnorm'', ''-sn''}"
    using h5 by simp
  have b: "normalize_box subs_window" "strip_subs_box subs_window"
    by (simp_all add: subs_window_def song_window_def)
  from toggles [OF subs_start linux_ensure h3 h4 h5'] b subs_start linux_ensure h5
  show ?thesis by simp
qed

text \<open>
  Claim C8. When the locator returns \<^verbatim>\<open>None\<close>, \<^verbatim>\<open>start_convert\<close> creates no
  worker, and the conversion never reaches \<^verbatim>\<open>run\<close> and its \<^verbatim>\<open>Popen\<close>.
\<close>

theorem not_found_no_runner:
  assumes "fst (ensure_ffmpeg h True w) = None"
  shows "fst (start_convert h win w) = None \<and> fst (conversion h win w) = None"
  using start_convert_None [OF assms] by (simp add: conversion_fst)

text \<open>
  An instance: a valid request on a Linux host without ffmpeg, where both pre-flight
  checks pass.
\<close>

theorem not_found_no_runner_witness:
  "fst (ensure_ffmpeg linux_host True bare_world) = None
   \<and> input_path song_window \<noteq> []
   \<and> isdir (the_disk bare_world) (output_dir song_window)
   \<and> fst (start_convert linux_host song_window bare_world) = None
   \<and> fst (conversion linux_host song_window bare_world) = None"
  using not_found_no_runner [OF bare_ensure, of song_window] bare_ensure
  by (simp add: song_window_def bare_world_def)

text \<open>
  Claim C9. For every run of the worker: no signal follows a \<^verbatim>\<open>finished\<close> signal;
  when the child started, the log lines emitted are the lines of the child in the
  child's order; and when the child started and \<^verbatim>\<open>finished\<close> is emitted, the child
  has exited and the return of \<^verbatim>\<open>process.wait()\<close> stands between the last log line
  and \<^verbatim>\<open>finished\<close>. The sequence is the order in which the worker emits; the queued
  connection of Qt hands signals to the receiving thread in the order they were posted.
\<close>

theorem signal_order:
  "finished_last (fst (run h cmd wd))
   \<and> (\<forall>process. popen h cmd wd (worker_flags h) = Inr process \<longrightarrow>
         log_lines (fst (run h cmd wd)) = out_lines process)
   \<and> (\<forall>process ok. popen h cmd wd (worker_flags h) = Inr process
                       \<and> FinishedSignal ok \<in> set (fst (run h cmd wd)) \<longrightarrow>
         (\<exists>rc. exit_status process = Some rc
             \<and> fst (run h cmd wd) =
                 map LogSignal (out_lines process) @ [ProcessExited rc, FinishedSignal ok]))"
proof (cases "popen h cmd wd (worker_flags h)")
  case (Inl exn)
  then show ?thesis by (simp add: run_def)
next
  case (Inr process)
  show ?thesis
  proof (cases "exit_status process")
    case None
    with Inr show ?thesis by (auto simp: run_def emit_lines_eq)
  next
    case (Some rc)
    with Inr show ?thesis by (auto simp: run_def emit_lines_eq)
  qed
qed

text \<open>An instance: a child that writes two lines and exits with status 0.\<close>

theorem signal_order_witness:
  "popen linux_host [''ffmpeg''] ''/out'' (worker_flags linux_host)
     = Inr (Child [''size=1kB'', ''done''] (Some 0))
   \<and> fst (run linux_host [''ffmpeg''] ''/out'')
     = [LogSignal ''size=1kB'', LogSignal ''done'', ProcessExited 0, FinishedSignal True]
   \<and> finished_last (fst (run linux_host [''ffmpeg''] ''/out''))
   \<and> log_lines (fst (run linux_host [''ffmpeg''] ''/out'')) = [''size=1kB'', ''done'']"
proof -
  have p: "popen linux_host [''ffmpeg''] ''/out'' (worker_flags linux_host)
     = Inr (Child [''size=1kB'', ''done''] (Some 0))"
    by (simp add: linux_host_def)
  have m: "FinishedSignal True \<in> set (fst (run linux_host [''ffmpeg''] ''/out''))"
    by (simp add: run_def p)
  from signal_order [of linux_host "[''ffmpeg'']" "''/out''"] p m
  show ?thesis by auto
qed

text \<open>
  Claim C10. \<^verbatim>\<open>start_convert\<close> stops before the tool lookup exactly when the stored
  input path is empty or the output directory does not exist. With a non-empty input
  path, an existing output directory and no input file on the disk, the locator is
  still called, and when it finds the tool the worker is created and run.
\<close>

theorem missing_input_not_checked:
  "(input_path win = [] \<or> \<not> isdir (the_disk w) (output_dir win) \<longrightarrow>
      fst (conversion h win w) = None)
   \<and> (input_path win \<noteq> [] \<and> isdir (the_disk w) (output_dir win)
       \<and> \<not> isfile (the_disk w) (input_path win) \<longrightarrow>
        (\<exists>rest. trace (snd (start_convert h win w)) = trace w @ Probe # rest)
      \<and> (\<forall>ff. fst (ensure_ffmpeg h True w) = Some ff \<and> ff \<noteq> [] \<longrightarrow>
            fst (conversion h win w) =
              Some (run h (build_cmd ff (input_path win)
                             (out_path_of (os_path h) (input_path win) (output_dir win)
                                (format_combo win))
                             (format_combo win) (quality_combo win)
                             (normalize_box win) (strip_subs_box win))
                          (output_dir win))))"
proof -
  have a: "input_path win = [] \<or> \<not> isdir (the_disk w) (output_dir win) \<Longrightarrow>
      fst (conversion h win w) = None"
    by (auto simp: conversion_fst start_convert_def)
  have b: "\<exists>rest. trace (snd (start_convert h win w)) = trace w @ Probe # rest"
    if "input_path win \<noteq> []" "isdir (the_disk w) (output_dir win)"
    using start_convert_trace [OF that] .
  have c: "fst (conversion h win w) =
              Some (run h (build_cmd ff (input_path win)
                             (out_path_of (os_path h) (input_path win) (output_dir win)
                                (format_combo win))
                             (format_combo win) (quality_combo win)
                             (normalize_box win) (strip_subs_box win))
                          (output_dir win))"
    if "input_path win \<noteq> []" "isdir (the_disk w) (output_dir win)"
       "fst (ensure_ffmpeg h True w) = Some ff" "ff \<noteq> []" for ff
    using start_convert_launch [OF that] by (simp add: conversion_fst)
  from a b c show ?thesis by blast
qed

text \<open>
  An instance: \<^verbatim>\<open>/x/song.mov\<close> does not exist on the disk, and ffmpeg is still
  started.
\<close>

theorem missing_input_not_checked_witness:
  "input_path song_window \<noteq> []
   \<and> isdir (the_disk linux_world) (output_dir song_window)
   \<and> \<not> isfile (the_disk linux_world) (input_path song_window)
   \<and> fst (ensure_ffmpeg linux_host True linux_world) = Some ''/usr/bin/ffmpeg''
   \<and> (\<exists>rest. trace (snd (start_convert linux_host song_window linux_world))
         = trace linux_world @ Probe # rest)
   \<and> fst (conversion linux_host song_window linux_world)
       = Some ([LogSignal ''size=1kB'', LogSignal ''done'', ProcessExited 0, FinishedSignal True],
               Returned)"
proof -
  have h1: "input_path song_window \<noteq> []" by (simp add: song_window_def)
  have h2: "isdir (the_disk linux_world) (output_dir song_window)" by code_simp
  have h3: "\<not> isfile (the_disk linux_world) (input_path song_window)" by code_simp
  have r: "run linux_host cmd wd
       = ([LogSignal ''size=1kB'', LogSignal ''done'', ProcessExited 0, FinishedSignal True],
               Returned)" for cmd wd
    by (simp add: run_def linux_host_def)
  from missing_input_not_checked [of song_window linux_world linux_host]
       h1 h2 h3 linux_ensure
  show ?thesis by (simp add: r)
qed

end
